theory Spec2Isabelle
  imports Main "HOL-Library.Word"
begin

section \<open>Common types\<close>

text \<open>
  The status codes that the RPC runtime and the transfer client hand back to their
  callers (\<^verbatim>\<open>pw::Status\<close>).
\<close>

datatype Status =
    Ok | Cancelled | InvalidArgument | DeadlineExceeded | NotFound
  | ResourceExhausted | FailedPrecondition | Unavailable | DataLoss | Internal

type_synonym uint32_t = "32 word"
type_synonym uint16_t = "16 word"
type_synonym byte = "8 word"

text \<open>
  \<^verbatim>\<open>size_t\<close> values are only compared and passed on by the code below, never added or
  multiplied, so they are natural numbers here.
\<close>

type_synonym size_t = nat

section \<open>The transfer client (\<^verbatim>\<open>pw_transfer/client.h\<close>)\<close>

subsection \<open>Collaborators that the header only names\<close>

text \<open>
  Modelled from the spec: \<^verbatim>\<open>ProtocolVersion\<close> (declared in a header that is not
  among the sources). The spec gives a session the versions Legacy and V2, V2 being the
  latest.
\<close>

datatype ProtocolVersion = kLegacy | kVersionTwo

text \<open>Modelled from the spec: \<^verbatim>\<open>ProtocolVersion::kLatest\<close>, the latest version, V2.\<close>

definition kLatest :: ProtocolVersion where
  "kLatest = kVersionTwo"

text \<open>
  Modelled from the spec: the events of the transfer thread's work queue
  (\<^verbatim>\<open>transfer_thread.h\<close> is not among the sources). The spec lists the event kinds
  NewClientTransfer, NewServerTransfer, ChunkReceived, CancelTransfer(handle_id), Timeout
  and Shutdown.
\<close>

datatype Event =
    NewClientTransfer uint32_t
  | NewServerTransfer uint32_t
  | ChunkReceived uint32_t "byte list"
  | CancelTransferEvent uint32_t
  | Timeout uint32_t
  | Shutdown

text \<open>
  Modelled from the spec: the transfer thread, as far as the client uses it. Its
  \<^verbatim>\<open>max_chunk_size()\<close> is fixed at construction; its work queue holds the events that
  were enqueued and not yet consumed, oldest first.
\<close>

record TransferThread =
  max_chunk_size :: size_t
  work_queue :: "Event list"

text \<open>
  Modelled from the spec: \<^verbatim>\<open>TransferThread::CancelClientTransfer\<close>, which the spec
  describes as enqueueing a cancel for the handle.
\<close>

definition CancelClientTransfer :: "TransferThread \<Rightarrow> uint32_t \<Rightarrow> TransferThread" where
  "CancelClientTransfer t handle_id =
     t\<lparr>work_queue := work_queue t @ [CancelTransferEvent handle_id]\<rparr>"

text \<open>
  Modelled from the spec: \<^verbatim>\<open>internal::TransferParameters\<close> (declared in
  \<^verbatim>\<open>internal/context.h\<close>, not among the sources). The client constructs it from three
  arguments (the window, the chunk size and the divisor) and later calls its
  \<^verbatim>\<open>set_extend_window_divisor\<close>; it is a record that stores the three arguments as
  they are passed.
\<close>

record TransferParameters =
  max_window_size_bytes :: size_t
  max_chunk_size_bytes :: size_t
  extend_window_divisor :: uint32_t

text \<open>
  Modelled from the spec: the constructor of \<^verbatim>\<open>TransferParameters\<close>, called by the
  client with the window, the chunk size and the divisor, in this order.
\<close>

definition TransferParameters_init :: "size_t \<Rightarrow> size_t \<Rightarrow> uint32_t \<Rightarrow> TransferParameters" where
  "TransferParameters_init window chunk divisor =
     \<lparr>max_window_size_bytes = window, max_chunk_size_bytes = chunk,
      extend_window_divisor = divisor\<rparr>"

text \<open>
  Modelled from the spec: \<^verbatim>\<open>TransferParameters::set_extend_window_divisor\<close>, which the
  client calls with a divisor it has validated.
\<close>

definition params_set_extend_window_divisor ::
  "TransferParameters \<Rightarrow> uint32_t \<Rightarrow> TransferParameters" where
  "params_set_extend_window_divisor p d = p\<lparr>extend_window_divisor := d\<rparr>"

text \<open>
  The constants of \<^verbatim>\<open>pw_transfer/internal/config.h\<close> (not among the sources) that
  the constructor reads are a parameter of the model.
\<close>

record Config =
  kDefaultExtendWindowDivisor :: uint32_t
  kDefaultMaxClientRetries :: uint32_t
  kDefaultMaxLifetimeRetries :: uint32_t

subsection \<open>\<^verbatim>\<open>Client::TransferHandle\<close>\<close>

record TransferHandle =
  handle_id :: uint32_t

definition kUnassignedHandleId :: uint32_t where
  "kUnassignedHandleId = 0"

text \<open>The public default constructor.\<close>

definition TransferHandle_default :: TransferHandle where
  "TransferHandle_default = \<lparr>handle_id = kUnassignedHandleId\<rparr>"

text \<open>The private constructor, which only \<^verbatim>\<open>Client\<close> can call.\<close>

definition TransferHandle_of :: "uint32_t \<Rightarrow> TransferHandle" where
  "TransferHandle_of i = \<lparr>handle_id = i\<rparr>"

definition is_unassigned :: "TransferHandle \<Rightarrow> bool" where
  "is_unassigned h \<longleftrightarrow> handle_id h = kUnassignedHandleId"

subsection \<open>\<^verbatim>\<open>Client\<close>\<close>

text \<open>
  The client's own members, named as in the header without the trailing underscore.
  \<^verbatim>\<open>transfer_thread_\<close> is a reference to a thread object
  that lives outside the client, so the operations that touch it take the thread and
  return it next to the client. \<^verbatim>\<open>client_\<close> is the generated RPC stub, of which only
  the channel id it was built with is kept.
\<close>

record Client =
  default_protocol_version :: ProtocolVersion
  client_channel_id :: uint32_t
  next_handle_id :: uint32_t
  max_parameters :: TransferParameters
  max_retries :: uint32_t
  max_lifetime_retries :: uint32_t
  has_read_stream :: bool
  has_write_stream :: bool

text \<open>
  The constructor. \<^verbatim>\<open>max_bytes_to_receive\<close> defaults to 0 and
  \<^verbatim>\<open>extend_window_divisor\<close> to \<^verbatim>\<open>cfg::kDefaultExtendWindowDivisor\<close> in the header;
  \<open>Client_default\<close> below is the call that leaves both out.
\<close>

definition Client_init ::
  "Config \<Rightarrow> uint32_t \<Rightarrow> TransferThread \<Rightarrow> size_t \<Rightarrow> uint32_t \<Rightarrow> Client" where
  "Client_init cfg channel_id transfer_thread max_bytes_to_receive divisor =
     \<lparr>default_protocol_version = kLatest,
      client_channel_id = channel_id,
      next_handle_id = 1,
      max_parameters =
        TransferParameters_init
          (if max_bytes_to_receive > 0 then max_bytes_to_receive
           else max_chunk_size transfer_thread)
          (max_chunk_size transfer_thread)
          divisor,
      max_retries = kDefaultMaxClientRetries cfg,
      max_lifetime_retries = kDefaultMaxLifetimeRetries cfg,
      has_read_stream = False,
      has_write_stream = False\<rparr>"

definition Client_default :: "Config \<Rightarrow> uint32_t \<Rightarrow> TransferThread \<Rightarrow> Client" where
  "Client_default cfg channel_id transfer_thread =
     Client_init cfg channel_id transfer_thread 0 (kDefaultExtendWindowDivisor cfg)"

definition CancelTransfer ::
  "Client \<times> TransferThread \<Rightarrow> TransferHandle \<Rightarrow> Client \<times> TransferThread" where
  "CancelTransfer ct handle =
     (if \<not> is_unassigned handle
      then (fst ct, CancelClientTransfer (snd ct) (handle_id handle))
      else ct)"

definition set_extend_window_divisor :: "Client \<Rightarrow> uint32_t \<Rightarrow> Status \<times> Client" where
  "set_extend_window_divisor c d =
     (if d \<le> 1 then (InvalidArgument, c)
      else (Ok, c\<lparr>max_parameters := params_set_extend_window_divisor (max_parameters c) d\<rparr>))"

definition set_max_retries :: "Client \<Rightarrow> uint32_t \<Rightarrow> Status \<times> Client" where
  "set_max_retries c r =
     (if r < 1 \<or> r > max_lifetime_retries c
      then (InvalidArgument, c)
      else (Ok, c\<lparr>max_retries := r\<rparr>))"

definition set_max_lifetime_retries :: "Client \<Rightarrow> uint32_t \<Rightarrow> Status \<times> Client" where
  "set_max_lifetime_retries c x =
     (if x < max_retries c
      then (InvalidArgument, c)
      else (Ok, c\<lparr>max_lifetime_retries := x\<rparr>))"

definition set_protocol_version :: "Client \<Rightarrow> ProtocolVersion \<Rightarrow> Client" where
  "set_protocol_version c new_version = c\<lparr>default_protocol_version := new_version\<rparr>"

text \<open>Concrete values used to exercise the results below.\<close>

definition cfg0 :: Config where
  "cfg0 = \<lparr>kDefaultExtendWindowDivisor = 32, kDefaultMaxClientRetries = 3,
            kDefaultMaxLifetimeRetries = 1500\<rparr>"

definition thread0 :: TransferThread where
  "thread0 = \<lparr>max_chunk_size = 256, work_queue = [Timeout 4]\<rparr>"

definition client0 :: Client where
  "client0 = Client_init cfg0 1 thread0 1024 4"

section \<open>The persistent container (\<^verbatim>\<open>pw_persistent_ram/persistent.h\<close>)\<close>

text \<open>
  \<^verbatim>\<open>Persistent<T>\<close> keeps a value and a 16-bit checksum of it in two volatile members.
  \<^verbatim>\<open>checksum::Crc16Ccitt::Calculate\<close> and the bytes that \<^verbatim>\<open>std::as_bytes\<close> reads off a
  \<^verbatim>\<open>T\<close> are not among the sources; both are parameters of the model.
\<close>

record 'a Checksum =
  Calculate :: "byte list \<Rightarrow> uint16_t"
  as_bytes :: "'a \<Rightarrow> byte list"

record 'a Persistent =
  contents :: 'a
  crc :: uint16_t

text \<open>The private \<^verbatim>\<open>Crc\<close>: the checksum of the object representation.\<close>

definition Crc :: "'a Checksum \<Rightarrow> 'a \<Rightarrow> uint16_t" where
  "Crc K v = Calculate K (as_bytes K v)"

text \<open>
  Both members are volatile, so every store to them is an observable event and the
  stores happen in program order. An operation returns the container it leaves behind
  together with the stores it made, first store first. (The reference that \<^verbatim>\<open>emplace\<close>
  and \<^verbatim>\<open>operator=\<close> return is to the container's own members.)
\<close>

datatype 'a Store = StoreContents 'a | StoreCrc uint16_t

fun store :: "'a Persistent \<Rightarrow> 'a Store \<Rightarrow> 'a Persistent" where
  "store p (StoreContents v) = p\<lparr>contents := v\<rparr>"
| "store p (StoreCrc c) = p\<lparr>crc := c\<rparr>"

definition emplace :: "'a Checksum \<Rightarrow> 'a Persistent \<Rightarrow> 'a \<Rightarrow> 'a Persistent \<times> 'a Store list" where
  "emplace K p v =
     (let s1 = StoreContents v;
          p1 = store p s1;
          s2 = StoreCrc (Crc K (contents p1));
          p2 = store p1 s2
      in (p2, [s1, s2]))"

text \<open>\<^verbatim>\<open>operator=\<close>: the same two statements, with the moved value.\<close>

definition assign :: "'a Checksum \<Rightarrow> 'a Persistent \<Rightarrow> 'a \<Rightarrow> 'a Persistent \<times> 'a Store list" where
  "assign K p v =
     (let s1 = StoreContents v;
          p1 = store p s1;
          s2 = StoreCrc (Crc K (contents p1));
          p2 = store p1 s2
      in (p2, [s1, s2]))"

definition has_value :: "'a Checksum \<Rightarrow> 'a Persistent \<Rightarrow> bool" where
  "has_value K p \<longleftrightarrow> crc p = Crc K (contents p)"

text \<open>
  \<^verbatim>\<open>value()\<close> asserts \<^verbatim>\<open>has_value()\<close>; a failed \<^verbatim>\<open>PW_ASSERT\<close> does not return, which
  is \<open>None\<close> here.
\<close>

definition value_of :: "'a Checksum \<Rightarrow> 'a Persistent \<Rightarrow> 'a option" where
  "value_of K p = (if has_value K p then Some (contents p) else None)"

text \<open>
  A concrete checksum for examples: a \<^verbatim>\<open>uint16_t\<close> payload in little-endian bytes,
  summed up. (Any function can stand for the CRC in the results below.)
\<close>

definition checksum0 :: "uint16_t Checksum" where
  "checksum0 = \<lparr>Calculate = (\<lambda>bs. sum_list (map ucast bs) + 1),
                 as_bytes = (\<lambda>v. [ucast v, ucast (drop_bit 8 v)])\<rparr>"

definition persistent0 :: "uint16_t Persistent" where
  "persistent0 = \<lparr>contents = 5, crc = 0\<rparr>"

section \<open>The RPC channel (exercised by \<^verbatim>\<open>pw_rpc/channel_test.cc\<close>)\<close>

text \<open>
  Only the channel's test is among the sources: \<^verbatim>\<open>Packet\<close>, \<^verbatim>\<open>Channel\<close>,
  \<^verbatim>\<open>Channel::OutputBuffer\<close> and the test's \<^verbatim>\<open>TestOutput\<close> are declared in headers that
  are not. They are modelled from the spec, sections 3, 4.1, 4.2 and 6; the constants of
  the test are taken from the test.
\<close>

text \<open>
  Modelled from the spec: the packet types of section 3 (\<^verbatim>\<open>packet.h\<close> is not among the
  sources), and \<open>RPC\<close>, the one type that the sources themselves use.
\<close>

datatype PacketType =
    RPC | REQUEST | RESPONSE | CLIENT_STREAM | SERVER_STREAM | CLIENT_ERROR | SERVER_ERROR
  | CLIENT_REQUEST_COMPLETION

text \<open>
  Modelled from the spec: \<^verbatim>\<open>Packet\<close> with the fields of section 3 that the sources set
  (type, channel, service, method, payload, status).
\<close>

record Packet =
  packet_type :: PacketType
  channel_id :: uint32_t
  service_id :: uint32_t
  method_id :: uint32_t
  payload_bytes :: "byte list"
  status :: Status

text \<open>
  Modelled from the spec: the constructor of \<^verbatim>\<open>Packet\<close>, as the sources call it with
  four or five arguments. Left out, the payload is empty and the status is Ok (status 0
  in the test packet of section 8).
\<close>

definition Packet_init ::
  "PacketType \<Rightarrow> uint32_t \<Rightarrow> uint32_t \<Rightarrow> uint32_t \<Rightarrow> byte list \<Rightarrow> Packet" where
  "Packet_init t c s m p =
     \<lparr>packet_type = t, channel_id = c, service_id = s, method_id = m, payload_bytes = p,
      status = Ok\<rparr>"

text \<open>Modelled from the spec: \<^verbatim>\<open>Packet::set_payload\<close>, which the test calls.\<close>

definition set_payload :: "Packet \<Rightarrow> byte list \<Rightarrow> Packet" where
  "set_payload p bs = p\<lparr>payload_bytes := bs\<rparr>"

text \<open>
  Modelled from the spec: \<^verbatim>\<open>Packet::MinEncodedSizeBytes\<close> (\<^verbatim>\<open>packet.cc\<close> is not among
  the sources). Section 4.1: two bytes for each of the six required fields type, channel,
  service, method, payload key and status.
\<close>

datatype RequiredField =
  TypeField | ChannelField | ServiceField | MethodField | PayloadKeyField | StatusField

definition required_fields :: "RequiredField list" where
  "required_fields =
     [TypeField, ChannelField, ServiceField, MethodField, PayloadKeyField, StatusField]"

definition min_field_size :: "RequiredField \<Rightarrow> nat" where
  "min_field_size f = 2"

definition MinEncodedSizeBytes :: "Packet \<Rightarrow> nat" where
  "MinEncodedSizeBytes p = sum_list (map min_field_size required_fields)"

text \<open>The two constants of \<^verbatim>\<open>channel_test.cc\<close>.\<close>

definition kTestPacket :: Packet where
  "kTestPacket = Packet_init RPC 1 42 100 []"

definition kReservedSize :: nat where
  "kReservedSize = 2 + 2 + 2 + 2 + 2 + 2"

text \<open>
  A span is the address of its first byte and its length; the empty span \<^verbatim>\<open>{}\<close> has the
  null address and length 0.
\<close>

record span =
  span_data :: nat
  span_size :: nat

definition empty_span :: span where
  "empty_span = \<lparr>span_data = 0, span_size = 0\<rparr>"

definition subspan :: "span \<Rightarrow> nat \<Rightarrow> span" where
  "subspan s offset = \<lparr>span_data = span_data s + offset, span_size = span_size s - offset\<rparr>"

text \<open>
  Modelled from the spec: a \<^verbatim>\<open>ChannelOutput\<close> such as the test's \<^verbatim>\<open>TestOutput<N>\<close>
  (\<^verbatim>\<open>test_utils.h\<close> is not among the sources). It owns a buffer, which
  \<^verbatim>\<open>AcquireBuffer\<close> hands out whole, and it is told to send and release; \<open>sent\<close> records
  the packets it was told to send, oldest first.
\<close>

record ChannelOutput =
  buffer :: span
  sent :: "Packet list"

text \<open>
  Modelled from the spec: a fresh \<^verbatim>\<open>TestOutput<N>\<close>, whose buffer of \<open>N\<close> bytes lies at
  some address and which has sent nothing.
\<close>

definition TestOutput :: "nat \<Rightarrow> nat \<Rightarrow> ChannelOutput" where
  "TestOutput address n = \<lparr>buffer = \<lparr>span_data = address, span_size = n\<rparr>, sent = []\<rparr>"

text \<open>Modelled from the spec: \<^verbatim>\<open>Channel\<close>, an id and an output (section 3).\<close>

record Channel =
  chan_id :: uint32_t
  chan_output :: ChannelOutput

text \<open>Modelled from the spec: the constructor of \<^verbatim>\<open>Channel\<close>, as the test calls it.\<close>

definition Channel_init :: "uint32_t \<Rightarrow> ChannelOutput \<Rightarrow> Channel" where
  "Channel_init i out = \<lparr>chan_id = i, chan_output = out\<rparr>"

text \<open>
  Modelled from the spec: \<^verbatim>\<open>Channel::OutputBuffer\<close>, the buffer acquired from a
  channel's output.
\<close>

record OutputBuffer =
  ob_buffer :: span

text \<open>
  Modelled from the spec: \<^verbatim>\<open>Channel::AcquireBuffer\<close> returns the output's buffer
  (section 4.2: a span of the output's maximum size).
\<close>

definition AcquireBuffer :: "Channel \<Rightarrow> OutputBuffer" where
  "AcquireBuffer ch = \<lparr>ob_buffer = buffer (chan_output ch)\<rparr>"

text \<open>
  Modelled from the spec: \<^verbatim>\<open>OutputBuffer::payload\<close> returns what is left of the buffer
  after the header bytes, which the channel sizes by the minimum encoded size, and the
  empty span when the buffer is smaller than that (sections 4.1, 4.2 and 8).
\<close>

definition payload :: "OutputBuffer \<Rightarrow> Packet \<Rightarrow> span" where
  "payload ob p =
     (let reserved_size = MinEncodedSizeBytes p
      in if reserved_size \<le> span_size (ob_buffer ob)
         then subspan (ob_buffer ob) reserved_size
         else empty_span)"

text \<open>
  Modelled from the spec: \<^verbatim>\<open>Channel::Send\<close> (section 4.2) is Internal when the
  output's buffer is smaller than the reserved header or the payload does not fit in what
  remains; otherwise the packet goes into the buffer and the output sends it. The spec
  names no effect of the failing call, and none of either call on the
  \<^verbatim>\<open>OutputBuffer\<close> it is given.
\<close>

definition Send :: "Channel \<Rightarrow> OutputBuffer \<Rightarrow> Packet \<Rightarrow> Status \<times> Channel" where
  "Send ch ob p =
     (let reserved_size = MinEncodedSizeBytes p
      in if span_size (ob_buffer ob) < reserved_size
            \<or> span_size (ob_buffer ob) - reserved_size < length (payload_bytes p)
         then (Internal, ch)
         else (Ok, ch\<lparr>chan_output := (chan_output ch)\<lparr>sent := sent (chan_output ch) @ [p]\<rparr>\<rparr>))"

section \<open>The server writer (\<^verbatim>\<open>pw_rpc/base_server_writer.cc\<close>)\<close>

text \<open>
  The server owns the channels (\<^verbatim>\<open>channels_\<close> in \<^verbatim>\<open>server.h\<close>) and a call refers to
  one of them, so several writers can share a channel. The channel objects are a store
  from references to channels, and a call holds a reference.
\<close>

type_synonym channel_ref = nat
type_synonym channels = "channel_ref \<Rightarrow> Channel"

text \<open>
  What the writer reads off its \<^verbatim>\<open>ServerCall\<close>: the channel, the id of the service and
  the id of the method.
\<close>

record ServerCall =
  call_channel :: channel_ref
  call_service_id :: uint32_t
  call_method_id :: uint32_t

datatype State = kClosed | kOpen

text \<open>
  The members \<^verbatim>\<open>call_\<close>, \<^verbatim>\<open>response_\<close> and \<^verbatim>\<open>state_\<close>, named without the trailing
  underscore.
\<close>

record BaseServerWriter =
  call :: ServerCall
  response :: OutputBuffer
  state :: State

text \<open>
  \<^verbatim>\<open>open()\<close> and the enumeration of the states are declared in
  \<^verbatim>\<open>base_server_writer.h\<close>, which is not among the sources. The functions below name
  the state \<^verbatim>\<open>kClosed\<close>; the writer is open in the other state.
\<close>

definition is_open :: "BaseServerWriter \<Rightarrow> bool" where
  "is_open w \<longleftrightarrow> state w = kOpen"

text \<open>
  Move assignment \<^verbatim>\<open>this = std::move(other)\<close>, returning both objects. What the moves
  of \<^verbatim>\<open>call_\<close> and \<^verbatim>\<open>response_\<close> leave in \<^verbatim>\<open>other\<close> is decided by classes that are not
  among the sources: \<open>left\<close> stands for \<open>other\<close> after the three moves, and can be anything.
\<close>

definition move_assign ::
  "BaseServerWriter \<Rightarrow> BaseServerWriter \<Rightarrow> BaseServerWriter
     \<Rightarrow> BaseServerWriter \<times> BaseServerWriter" where
  "move_assign left this other =
     (let this1 = this\<lparr>call := call other\<rparr>;
          this2 = this1\<lparr>response := response other\<rparr>;
          this3 = this2\<lparr>state := state other\<rparr>;
          other' = left\<lparr>state := kClosed\<rparr>
      in (this3, other'))"

definition packet :: "channels \<Rightarrow> BaseServerWriter \<Rightarrow> byte list \<Rightarrow> Packet" where
  "packet chans w bs =
     Packet_init RPC (chan_id (chans (call_channel (call w)))) (call_service_id (call w))
       (call_method_id (call w)) bs"

text \<open>\<^verbatim>\<open>Finish\<close> takes no argument and touches nothing but \<^verbatim>\<open>state_\<close>.\<close>

definition Finish :: "BaseServerWriter \<Rightarrow> BaseServerWriter" where
  "Finish w = (if \<not> is_open w then w else w\<lparr>state := kClosed\<rparr>)"

definition AcquirePayloadBuffer :: "channels \<Rightarrow> BaseServerWriter \<Rightarrow> span \<times> BaseServerWriter" where
  "AcquirePayloadBuffer chans w =
     (if \<not> is_open w then (empty_span, w)
      else (let w' = w\<lparr>response := AcquireBuffer (chans (call_channel (call w)))\<rparr>
            in (payload (response w') (packet chans w' []), w')))"

definition ReleasePayloadBuffer ::
  "channels \<Rightarrow> BaseServerWriter \<Rightarrow> byte list \<Rightarrow> Status \<times> channels" where
  "ReleasePayloadBuffer chans w bs =
     (if \<not> is_open w then (FailedPrecondition, chans)
      else (let r = call_channel (call w);
                (st, ch') = Send (chans r) (response w) (packet chans w bs)
            in (st, chans(r := ch'))))"

text \<open>
  A server writer in use: a sequence of calls on it, each with what it returns. The
  world is the channel store and the writer.
\<close>

datatype WriterCall = CallAcquirePayloadBuffer | CallReleasePayloadBuffer "byte list" | CallFinish

datatype Returned = ReturnedSpan span | ReturnedStatus Status | ReturnedVoid

fun writer_call :: "channels \<times> BaseServerWriter \<Rightarrow> WriterCall
    \<Rightarrow> Returned \<times> (channels \<times> BaseServerWriter)" where
  "writer_call (chans, w) CallAcquirePayloadBuffer =
     (let (sp, w') = AcquirePayloadBuffer chans w in (ReturnedSpan sp, (chans, w')))"
| "writer_call (chans, w) (CallReleasePayloadBuffer bs) =
     (let (st, chans') = ReleasePayloadBuffer chans w bs in (ReturnedStatus st, (chans', w)))"
| "writer_call (chans, w) CallFinish = (ReturnedVoid, (chans, Finish w))"

fun writer_calls :: "channels \<times> BaseServerWriter \<Rightarrow> WriterCall list
    \<Rightarrow> Returned list \<times> (channels \<times> BaseServerWriter)" where
  "writer_calls cw [] = ([], cw)"
| "writer_calls cw (c # cs) =
     (let (r, cw') = writer_call cw c;
          (rs, cw'') = writer_calls cw' cs
      in (r # rs, cw''))"

text \<open>What each call returns on a writer that is closed.\<close>

fun returned_when_closed :: "WriterCall \<Rightarrow> Returned" where
  "returned_when_closed CallAcquirePayloadBuffer = ReturnedSpan empty_span"
| "returned_when_closed (CallReleasePayloadBuffer bs) = ReturnedStatus FailedPrecondition"
| "returned_when_closed CallFinish = ReturnedVoid"

text \<open>Concrete values: one channel with a 64-byte output at address 4096, one open writer.\<close>

definition channels0 :: channels where
  "channels0 = (\<lambda>r. Channel_init 1 (TestOutput 4096 64))"

definition writer0 :: BaseServerWriter where
  "writer0 = \<lparr>call = \<lparr>call_channel = 0, call_service_id = 42, call_method_id = 100\<rparr>,
              response = \<lparr>ob_buffer = empty_span\<rparr>, state = kOpen\<rparr>"

section \<open>The life of a call (started by \<^verbatim>\<open>pw_rpc/nanopb/client_reader_writer.h\<close>)\<close>

text \<open>
  The two \<^verbatim>\<open>Start\<close> functions of the header construct a call, store the user's
  callbacks in it and send the initial request. What happens to the call afterwards is
  decided by \<^verbatim>\<open>Call\<close>, \<^verbatim>\<open>ClientCall\<close> and \<^verbatim>\<open>Endpoint\<close>, none of which is among the
  sources.

  Modelled from the spec: the state machine of a call, row by row from the table of
  section 4.3. The table has no row for a stream payload or a local Cancel while the call
  awaits completion; there the prose decides: inbound stream payloads invoke
  \<^verbatim>\<open>on_next\<close> (section 4.3), and after Cancel the call is closed (section 5). Any other
  pair of state and event without a row leaves the call as it is and has no effect. The
  packet that a local Cancel sends depends on the side.
\<close>

datatype Side = ClientSide | ServerSide

datatype CallState = Idle | Active | AwaitingCompletion | Closed

datatype CallEvent =
    Start
  | StreamPayloadIn "byte list"
  | TerminalPacketIn "byte list" Status
  | ErrorPacketIn Status
  | LocalCancel
  | LocalRequestCompletion

datatype Effect =
    SendPacket PacketType Status
  | on_next "byte list"
  | on_completed "byte list" Status
  | on_error Status

fun call_step :: "Side \<Rightarrow> CallState \<Rightarrow> CallEvent \<Rightarrow> CallState \<times> Effect list" where
  "call_step side Idle Start = (Active, [SendPacket REQUEST Ok])"
| "call_step side Active (StreamPayloadIn bs) = (Active, [on_next bs])"
| "call_step side Active (TerminalPacketIn bs st) = (Closed, [on_completed bs st])"
| "call_step side Active (ErrorPacketIn st) = (Closed, [on_error st])"
| "call_step side Active LocalCancel =
     (Closed, [SendPacket (case side of ClientSide \<Rightarrow> CLIENT_ERROR | ServerSide \<Rightarrow> SERVER_ERROR)
                 Cancelled])"
| "call_step side Active LocalRequestCompletion =
     (case side of
        ClientSide \<Rightarrow> (AwaitingCompletion, [SendPacket CLIENT_REQUEST_COMPLETION Ok])
      | ServerSide \<Rightarrow> (Active, []))"
| "call_step side AwaitingCompletion (StreamPayloadIn bs) = (AwaitingCompletion, [on_next bs])"
| "call_step side AwaitingCompletion LocalCancel =
     (Closed, [SendPacket (case side of ClientSide \<Rightarrow> CLIENT_ERROR | ServerSide \<Rightarrow> SERVER_ERROR)
                 Cancelled])"
| "call_step side AwaitingCompletion (TerminalPacketIn bs st) = (Closed, [on_completed bs st])"
| "call_step side AwaitingCompletion (ErrorPacketIn st) = (Closed, [on_error st])"
| "call_step side Closed e = (Closed, [])"
| "call_step side s e = (s, [])"

text \<open>A run: the events in the order they happen, the effects in the order they are made.\<close>

fun call_run :: "Side \<Rightarrow> CallState \<Rightarrow> CallEvent list \<Rightarrow> CallState \<times> Effect list" where
  "call_run side s [] = (s, [])"
| "call_run side s (e # es) =
     (let (s', fx) = call_step side s e;
          (s'', tr) = call_run side s' es
      in (s'', fx @ tr))"

fun is_termination :: "Effect \<Rightarrow> bool" where
  "is_termination (on_completed bs st) = True"
| "is_termination (on_error st) = True"
| "is_termination e = False"

fun is_on_next :: "Effect \<Rightarrow> bool" where
  "is_on_next (on_next bs) = True"
| "is_on_next e = False"

text \<open>How often \<^verbatim>\<open>on_completed\<close> and \<^verbatim>\<open>on_error\<close> were invoked, taken together.\<close>

definition terminations :: "Effect list \<Rightarrow> nat" where
  "terminations tr = length (filter is_termination tr)"

text \<open>No \<^verbatim>\<open>on_next\<close> comes after an \<^verbatim>\<open>on_completed\<close> or an \<^verbatim>\<open>on_error\<close>.\<close>

fun no_next_after_termination :: "Effect list \<Rightarrow> bool" where
  "no_next_after_termination [] = True"
| "no_next_after_termination (e # es) =
     (if is_termination e then \<not> list_ex is_on_next es \<and> no_next_after_termination es
      else no_next_after_termination es)"

text \<open>
  Whether the first event of the list to close an active call is a packet from the peer
  (terminal or error), not a local Cancel.
\<close>

fun closed_by_peer :: "CallEvent list \<Rightarrow> bool" where
  "closed_by_peer [] = False"
| "closed_by_peer (TerminalPacketIn bs st # es) = True"
| "closed_by_peer (ErrorPacketIn st # es) = True"
| "closed_by_peer (LocalCancel # es) = False"
| "closed_by_peer (e # es) = closed_by_peer es"

section \<open>Results on the transfer client\<close>

text \<open>
  C6. The three configuration setters validate their argument.
  \<^verbatim>\<open>set_extend_window_divisor(d)\<close> returns InvalidArgument exactly when \<open>d \<le> 1\<close> (so for
  \<open>d = 1\<close>) and Ok otherwise; \<^verbatim>\<open>set_max_retries(r)\<close> returns InvalidArgument exactly when
  \<open>r < 1\<close> or \<open>r\<close> exceeds the current \<^verbatim>\<open>max_lifetime_retries_\<close> (so for \<open>r = 0\<close>) and Ok
  otherwise; \<^verbatim>\<open>set_max_lifetime_retries(x)\<close> returns InvalidArgument exactly when \<open>x\<close> is
  below the current \<^verbatim>\<open>max_retries_\<close> and Ok otherwise. Whenever a setter returns
  InvalidArgument the client is left as it was.
\<close>

theorem setters_validate_arguments:
  "fst (set_extend_window_divisor c d) = (if d \<le> 1 then InvalidArgument else Ok)
   \<and> fst (set_extend_window_divisor c 1) = InvalidArgument
   \<and> fst (set_max_retries c r) =
       (if r < 1 \<or> max_lifetime_retries c < r then InvalidArgument else Ok)
   \<and> fst (set_max_retries c 0) = InvalidArgument
   \<and> fst (set_max_lifetime_retries c x) =
       (if x < max_retries c then InvalidArgument else Ok)
   \<and> (fst (set_extend_window_divisor c d) = InvalidArgument
        \<longrightarrow> snd (set_extend_window_divisor c d) = c)
   \<and> (fst (set_max_retries c r) = InvalidArgument \<longrightarrow> snd (set_max_retries c r) = c)
   \<and> (fst (set_max_lifetime_retries c x) = InvalidArgument
        \<longrightarrow> snd (set_max_lifetime_retries c x) = c)"
  by (simp add: set_extend_window_divisor_def set_max_retries_def
      set_max_lifetime_retries_def)

theorem setters_validate_arguments_witness:
  "fst (set_extend_window_divisor client0 1) = InvalidArgument
   \<and> snd (set_extend_window_divisor client0 1) = client0
   \<and> fst (set_max_retries client0 1501) = InvalidArgument
   \<and> snd (set_max_retries client0 1501) = client0
   \<and> fst (set_max_lifetime_retries client0 2) = InvalidArgument
   \<and> snd (set_max_lifetime_retries client0 2) = client0"
  using setters_validate_arguments [of client0 1 1501 2]
  by (simp add: client0_def Client_init_def cfg0_def)

text \<open>
  C7. \<^verbatim>\<open>CancelTransfer\<close> with a default-constructed handle (id 0, unassigned) does
  nothing: the transfer thread's work queue and the client are as before. With a handle
  whose id is not 0 it leaves the client as it was and puts exactly one event on the
  work queue, the cancel of that handle id, behind the events already there.
\<close>

theorem CancelTransfer_unassigned_noop:
  "CancelTransfer (c, t) TransferHandle_default = (c, t)
   \<and> (handle_id h = 0 \<longrightarrow> CancelTransfer (c, t) h = (c, t))
   \<and> (handle_id h \<noteq> 0 \<longrightarrow>
        fst (CancelTransfer (c, t) h) = c
        \<and> work_queue (snd (CancelTransfer (c, t) h)) =
            work_queue t @ [CancelTransferEvent (handle_id h)]
        \<and> max_chunk_size (snd (CancelTransfer (c, t) h)) = max_chunk_size t
        \<and> length (work_queue (snd (CancelTransfer (c, t) h))) =
            Suc (length (work_queue t)))"
  by (simp add: CancelTransfer_def is_unassigned_def kUnassignedHandleId_def
      TransferHandle_default_def CancelClientTransfer_def)

theorem CancelTransfer_unassigned_noop_witness:
  "handle_id (TransferHandle_of 7) \<noteq> 0
   \<and> handle_id TransferHandle_default = 0
   \<and> CancelTransfer (client0, thread0) TransferHandle_default = (client0, thread0)
   \<and> fst (CancelTransfer (client0, thread0) (TransferHandle_of 7)) = client0
   \<and> work_queue (snd (CancelTransfer (client0, thread0) (TransferHandle_of 7))) =
       [Timeout 4, CancelTransferEvent 7]"
  using CancelTransfer_unassigned_noop [of client0 thread0 "TransferHandle_of 7"]
    CancelTransfer_unassigned_noop [of client0 thread0 TransferHandle_default]
  by (simp add: TransferHandle_of_def TransferHandle_default_def kUnassignedHandleId_def
      thread0_def)

text \<open>
  C8. A client constructed with \<^verbatim>\<open>max_bytes_to_receive\<close> equal to 0 (which is also what
  the defaulted argument gives) stores the transfer thread's \<^verbatim>\<open>max_chunk_size()\<close> as its
  window; constructed with a positive \<^verbatim>\<open>max_bytes_to_receive\<close> it stores that value.
\<close>

theorem Client_window_size:
  "max_window_size_bytes (max_parameters (Client_init cfg ch t 0 d)) = max_chunk_size t
   \<and> max_window_size_bytes (max_parameters (Client_default cfg ch t)) = max_chunk_size t
   \<and> (0 < n \<longrightarrow> max_window_size_bytes (max_parameters (Client_init cfg ch t n d)) = n)"
  by (simp add: Client_init_def Client_default_def TransferParameters_init_def)

theorem Client_window_size_witness:
  "(0::nat) < 1024
   \<and> max_window_size_bytes (max_parameters (Client_init cfg0 1 thread0 1024 4)) = 1024
   \<and> max_window_size_bytes (max_parameters (Client_init cfg0 1 thread0 0 4)) = 256"
  using Client_window_size [of cfg0 1 thread0 4 1024]
  by (simp add: thread0_def)

section \<open>Results on the persistent container\<close>

text \<open>
  C9. \<^verbatim>\<open>has_value()\<close> is true exactly when the stored checksum equals the checksum
  computed over the current contents. \<^verbatim>\<open>emplace\<close> and the assignment operator store
  the value first and the checksum of it second, and nothing else; right after either,
  \<^verbatim>\<open>has_value()\<close> is true and \<^verbatim>\<open>value()\<close> returns the value that was written.
\<close>

theorem Persistent_valid_iff_tag_matches:
  "(has_value K p \<longleftrightarrow> crc p = Calculate K (as_bytes K (contents p)))
   \<and> snd (emplace K p v) = [StoreContents v, StoreCrc (Calculate K (as_bytes K v))]
   \<and> fst (emplace K p v) = foldl store p (snd (emplace K p v))
   \<and> has_value K (fst (emplace K p v))
   \<and> value_of K (fst (emplace K p v)) = Some v
   \<and> snd (assign K p v) = [StoreContents v, StoreCrc (Calculate K (as_bytes K v))]
   \<and> fst (assign K p v) = foldl store p (snd (assign K p v))
   \<and> has_value K (fst (assign K p v))
   \<and> value_of K (fst (assign K p v)) = Some v"
  by (simp add: has_value_def value_of_def emplace_def assign_def Crc_def Let_def)

theorem Persistent_valid_iff_tag_matches_witness:
  "\<not> has_value checksum0 persistent0
   \<and> value_of checksum0 persistent0 = None
   \<and> snd (emplace checksum0 persistent0 258) = [StoreContents 258, StoreCrc 4]
   \<and> has_value checksum0 (fst (emplace checksum0 persistent0 258))
   \<and> value_of checksum0 (fst (emplace checksum0 persistent0 258)) = Some 258"
  using Persistent_valid_iff_tag_matches [of checksum0 persistent0 258]
  by (simp add: checksum0_def persistent0_def has_value_def value_of_def emplace_def Crc_def
      Let_def)

section \<open>Results on the channel\<close>

lemma MinEncodedSizeBytes_12: "MinEncodedSizeBytes p = 12"
  by (simp add: MinEncodedSizeBytes_def required_fields_def min_field_size_def)

text \<open>
  C3. The minimum encoded size of a packet, which has all six required fields, is 12
  bytes, two for each required field, whatever its payload and so with an empty one; it
  is the test's \<^verbatim>\<open>kReservedSize\<close> for the test's packet. The channel reserves exactly
  this many bytes before the payload: the payload span is the buffer without its first
  \<^verbatim>\<open>MinEncodedSizeBytes()\<close> bytes (empty when the buffer is shorter), and \<^verbatim>\<open>Send\<close>
  succeeds exactly when that size plus the payload fits the buffer.
\<close>

theorem MinEncodedSizeBytes_is_reserved_size:
  "MinEncodedSizeBytes p = 12
   \<and> MinEncodedSizeBytes p = 2 * length required_fields
   \<and> MinEncodedSizeBytes kTestPacket = kReservedSize
   \<and> payload (AcquireBuffer ch) p =
       (if span_size (buffer (chan_output ch)) < MinEncodedSizeBytes p then empty_span
        else subspan (buffer (chan_output ch)) (MinEncodedSizeBytes p))
   \<and> (fst (Send ch (AcquireBuffer ch) p) = Ok \<longleftrightarrow>
        MinEncodedSizeBytes p + length (payload_bytes p) \<le> span_size (buffer (chan_output ch)))"
  by (auto simp add: MinEncodedSizeBytes_12 required_fields_def kReservedSize_def payload_def
      AcquireBuffer_def Send_def Let_def)

theorem MinEncodedSizeBytes_is_reserved_size_witness:
  "payload_bytes kTestPacket = []
   \<and> MinEncodedSizeBytes kTestPacket = 12
   \<and> payload (AcquireBuffer (Channel_init 100 (TestOutput 4096 12))) kTestPacket =
       \<lparr>span_data = 4096 + 12, span_size = 0\<rparr>
   \<and> fst (Send (Channel_init 100 (TestOutput 4096 12))
         (AcquireBuffer (Channel_init 100 (TestOutput 4096 12))) kTestPacket) = Ok"
  using MinEncodedSizeBytes_is_reserved_size [of kTestPacket "Channel_init 100 (TestOutput 4096 12)"]
  by (simp add: Channel_init_def TestOutput_def kTestPacket_def Packet_init_def subspan_def)

text \<open>
  C4. On a channel whose output buffer has \<open>N \<ge> 12\<close> bytes, the payload span of the
  acquired buffer has exactly \<open>N - 12\<close> bytes and starts 12 bytes after the start of the
  output's buffer; and \<^verbatim>\<open>Send\<close> of a packet whose payload is no longer than that span
  returns Ok and hands the packet to the output.
\<close>

theorem payload_span_and_Send_Ok:
  assumes "12 \<le> span_size (buffer (chan_output ch))"
  shows "span_size (payload (AcquireBuffer ch) p) = span_size (buffer (chan_output ch)) - 12
   \<and> span_data (payload (AcquireBuffer ch) p) = span_data (buffer (chan_output ch)) + 12
   \<and> (length (payload_bytes q) \<le> span_size (payload (AcquireBuffer ch) p) \<longrightarrow>
        fst (Send ch (AcquireBuffer ch) q) = Ok
        \<and> sent (chan_output (snd (Send ch (AcquireBuffer ch) q))) = sent (chan_output ch) @ [q])"
  using assms
  by (simp add: MinEncodedSizeBytes_12 payload_def AcquireBuffer_def Send_def Let_def subspan_def)

theorem payload_span_and_Send_Ok_witness:
  "(12::nat) \<le> span_size (buffer (chan_output (Channel_init 100 (TestOutput 4096 36))))
   \<and> payload (AcquireBuffer (Channel_init 100 (TestOutput 4096 36))) kTestPacket =
       \<lparr>span_data = 4108, span_size = 24\<rparr>
   \<and> fst (Send (Channel_init 100 (TestOutput 4096 36))
         (AcquireBuffer (Channel_init 100 (TestOutput 4096 36))) kTestPacket) = Ok"
  using payload_span_and_Send_Ok
      [of "Channel_init 100 (TestOutput 4096 36)" kTestPacket kTestPacket]
  by (simp add: Channel_init_def TestOutput_def kTestPacket_def Packet_init_def)

text \<open>
  C5. On a channel whose output buffer has fewer than 12 bytes, the payload span of the
  acquired buffer is empty and \<^verbatim>\<open>Send\<close> returns Internal. On any channel, \<^verbatim>\<open>Send\<close>
  returns Internal when the packet's payload is longer than what remains of the buffer
  after the 12 reserved bytes.
\<close>

theorem small_buffer_or_large_payload_is_Internal:
  "(span_size (buffer (chan_output ch)) < 12 \<longrightarrow>
      payload (AcquireBuffer ch) p = empty_span
      \<and> fst (Send ch (AcquireBuffer ch) q) = Internal)
   \<and> (span_size (buffer (chan_output ch)) - 12 < length (payload_bytes q) \<longrightarrow>
      fst (Send ch (AcquireBuffer ch) q) = Internal)"
  by (simp add: MinEncodedSizeBytes_12 payload_def AcquireBuffer_def Send_def Let_def)

theorem small_buffer_or_large_payload_is_Internal_witness:
  "span_size (buffer (chan_output (Channel_init 100 (TestOutput 4096 11)))) < 12
   \<and> payload (AcquireBuffer (Channel_init 100 (TestOutput 4096 11))) kTestPacket = empty_span
   \<and> fst (Send (Channel_init 100 (TestOutput 4096 11))
         (AcquireBuffer (Channel_init 100 (TestOutput 4096 11))) kTestPacket) = Internal
   \<and> span_size (buffer (chan_output (Channel_init 100 (TestOutput 4096 12)))) - 12
       < length (payload_bytes (set_payload kTestPacket [0]))
   \<and> fst (Send (Channel_init 100 (TestOutput 4096 12))
         (AcquireBuffer (Channel_init 100 (TestOutput 4096 12))) (set_payload kTestPacket [0]))
       = Internal"
  using small_buffer_or_large_payload_is_Internal
      [of "Channel_init 100 (TestOutput 4096 11)" kTestPacket kTestPacket]
    small_buffer_or_large_payload_is_Internal
      [of "Channel_init 100 (TestOutput 4096 12)" kTestPacket "set_payload kTestPacket [0]"]
  by (simp add: Channel_init_def TestOutput_def kTestPacket_def Packet_init_def set_payload_def)

section \<open>Results on the server writer\<close>

text \<open>
  C2. \<^verbatim>\<open>Finish\<close> on a server writer. The function takes no status. Called on any writer
  it returns nothing, leaves every channel as it was, so that no packet is sent, and
  leaves the writer closed, so that \<^verbatim>\<open>open()\<close> is false afterwards. On the open writer
  \<open>writer0\<close>, whose channel has sent nothing, the channel has still sent nothing after
  \<^verbatim>\<open>Finish\<close>.
\<close>

theorem Finish_sends_no_packet:
  "writer_call (chans, w) CallFinish = (ReturnedVoid, (chans, w\<lparr>state := kClosed\<rparr>))
   \<and> \<not> is_open (Finish w)
   \<and> is_open writer0
   \<and> sent (chan_output (fst (snd (writer_call (channels0, writer0) CallFinish))
        (call_channel (call writer0)))) = []"
  by (cases "state w")
    (simp_all add: writer0_def Finish_def is_open_def channels0_def Channel_init_def
      TestOutput_def)

lemma writer_call_closed:
  "state w = kClosed \<Longrightarrow> writer_call (chans, w) c = (returned_when_closed c, (chans, w))"
  by (cases c)
    (simp_all add: AcquirePayloadBuffer_def ReleasePayloadBuffer_def Finish_def is_open_def)

lemma writer_calls_closed:
  "state w = kClosed \<Longrightarrow>
   writer_calls (chans, w) cs = (map returned_when_closed cs, (chans, w))"
  by (induction cs) (simp_all add: writer_call_closed)

lemma state_moved_from: "state (snd (move_assign left target source)) = kClosed"
  by (simp add: move_assign_def Let_def)

text \<open>
  C10. After the move assignment \<^verbatim>\<open>target = std::move(source)\<close> the source writer is
  closed. On it \<^verbatim>\<open>AcquirePayloadBuffer\<close> returns the empty span,
  \<^verbatim>\<open>ReleasePayloadBuffer\<close> returns FailedPrecondition and leaves every channel as it was,
  so that nothing is sent, and \<^verbatim>\<open>Finish\<close> changes nothing; and so it stays through any
  sequence of these calls, each of which returns what it returns on a closed writer.
\<close>

theorem moved_from_writer_is_closed:
  "state (snd (move_assign left target source)) = kClosed
   \<and> \<not> is_open (snd (move_assign left target source))
   \<and> AcquirePayloadBuffer chans (snd (move_assign left target source)) =
       (empty_span, snd (move_assign left target source))
   \<and> ReleasePayloadBuffer chans (snd (move_assign left target source)) bs =
       (FailedPrecondition, chans)
   \<and> Finish (snd (move_assign left target source)) = snd (move_assign left target source)
   \<and> writer_calls (chans, snd (move_assign left target source)) cs =
       (map returned_when_closed cs, (chans, snd (move_assign left target source)))"
  using writer_calls_closed [OF state_moved_from, of chans left target source cs]
  by (simp add: state_moved_from AcquirePayloadBuffer_def ReleasePayloadBuffer_def Finish_def
      is_open_def)

theorem moved_from_writer_is_closed_witness:
  "is_open writer0
   \<and> fst (move_assign writer0 (writer0\<lparr>state := kClosed\<rparr>) writer0) = writer0
   \<and> writer_calls (channels0, snd (move_assign writer0 (writer0\<lparr>state := kClosed\<rparr>) writer0))
       [CallAcquirePayloadBuffer, CallReleasePayloadBuffer [1, 2], CallFinish,
        CallReleasePayloadBuffer []] =
      ([ReturnedSpan empty_span, ReturnedStatus FailedPrecondition, ReturnedVoid,
        ReturnedStatus FailedPrecondition],
       (channels0, writer0\<lparr>state := kClosed\<rparr>))"
  using moved_from_writer_is_closed
      [of writer0 "writer0\<lparr>state := kClosed\<rparr>" writer0 channels0 "[1, 2]"
        "[CallAcquirePayloadBuffer, CallReleasePayloadBuffer [1, 2], CallFinish,
          CallReleasePayloadBuffer []]"]
  by (simp add: writer0_def move_assign_def Let_def is_open_def AcquirePayloadBuffer_def
      ReleasePayloadBuffer_def Finish_def)

section \<open>Results on the life of a call\<close>

lemma call_run_Closed: "call_run side Closed es = (Closed, [])"
  by (induction es) auto

lemma snd_call_run_Cons:
  "snd (call_run side s (e # es)) =
     snd (call_step side s e) @ snd (call_run side (fst (call_step side s e)) es)"
  by (simp add: case_prod_unfold Let_def)

lemma terminations_Nil: "terminations [] = 0"
  by (simp add: terminations_def)

lemma terminations_Cons:
  "terminations (e # tr) =
     (if is_termination e then Suc (terminations tr) else terminations tr)"
  by (simp add: terminations_def)

text \<open>
  While the call is open (active or awaiting completion), the rest of the run makes
  one termination callback if a packet of the peer closes the call and none otherwise.
\<close>

lemma call_run_open:
  "s = Active \<or> s = AwaitingCompletion \<Longrightarrow>
   terminations (snd (call_run side s es)) = (if closed_by_peer es then 1 else 0)
   \<and> no_next_after_termination (snd (call_run side s es))"
proof (induction es arbitrary: s)
  case Nil
  then show ?case by (simp add: terminations_Nil)
next
  case (Cons e es)
  have A: "terminations (snd (call_run side Active es)) = (if closed_by_peer es then 1 else 0)
     \<and> no_next_after_termination (snd (call_run side Active es))"
    using Cons.IH [of Active] by simp
  have W: "terminations (snd (call_run side AwaitingCompletion es)) =
       (if closed_by_peer es then 1 else 0)
     \<and> no_next_after_termination (snd (call_run side AwaitingCompletion es))"
    using Cons.IH [of AwaitingCompletion] by simp
  from Cons.prems show ?case
  proof
    assume s: "s = Active"
    show ?thesis using A W
      by (cases e; cases side)
        (simp_all add: s snd_call_run_Cons call_run_Closed terminations_Cons terminations_Nil
          del: call_run.simps)
  next
    assume s: "s = AwaitingCompletion"
    show ?thesis using A W
      by (cases e; cases side)
        (simp_all add: s snd_call_run_Cons call_run_Closed terminations_Cons terminations_Nil
          del: call_run.simps)
  qed
qed

text \<open>
  C1. For every call that was started, over the whole run \<^verbatim>\<open>on_completed\<close>
  and \<^verbatim>\<open>on_error\<close> are invoked at most once in total: exactly once when the first event
  to close the call is a terminal or error packet from the peer, and not at all when the
  call is closed by a local Cancel or is never closed. \<^verbatim>\<open>on_next\<close> is never invoked
  after either of them.
\<close>

theorem call_terminates_at_most_once:
  "terminations (snd (call_run side Idle (Start # es))) = (if closed_by_peer es then 1 else 0)
   \<and> terminations (snd (call_run side Idle (Start # es))) \<le> 1
   \<and> no_next_after_termination (snd (call_run side Idle (Start # es)))"
  using call_run_open [of Active side es]
  by (simp add: snd_call_run_Cons terminations_Cons del: call_run.simps)

theorem call_terminates_at_most_once_witness:
  "closed_by_peer [StreamPayloadIn [1], LocalRequestCompletion, StreamPayloadIn [2],
       TerminalPacketIn [3] Ok, StreamPayloadIn [4], ErrorPacketIn Internal]
   \<and> snd (call_run ClientSide Idle [Start, StreamPayloadIn [1], LocalRequestCompletion,
       StreamPayloadIn [2], TerminalPacketIn [3] Ok, StreamPayloadIn [4], ErrorPacketIn Internal])
      = [SendPacket REQUEST Ok, on_next [1], SendPacket CLIENT_REQUEST_COMPLETION Ok,
         on_next [2], on_completed [3] Ok]
   \<and> terminations (snd (call_run ClientSide Idle [Start, StreamPayloadIn [1],
       LocalRequestCompletion, StreamPayloadIn [2], TerminalPacketIn [3] Ok, StreamPayloadIn [4],
       ErrorPacketIn Internal])) = 1"
  using call_terminates_at_most_once
      [of ClientSide "[StreamPayloadIn [1], LocalRequestCompletion, StreamPayloadIn [2],
         TerminalPacketIn [3] Ok, StreamPayloadIn [4], ErrorPacketIn Internal]"]
  by simp

text \<open>
  The number of termination callbacks is not 1 in every run: the run of the spec's
  scenario B, a server stream that delivers two payloads and is then cancelled by the
  client, has none.
\<close>

theorem call_cancelled_counterexample:
  "\<not> (terminations (snd (call_run ClientSide Idle
           [Start, StreamPayloadIn [1], StreamPayloadIn [2], LocalCancel])) = 1
      \<and> no_next_after_termination (snd (call_run ClientSide Idle
           [Start, StreamPayloadIn [1], StreamPayloadIn [2], LocalCancel])))"
  by (simp add: terminations_def)

end
